theory Spec2Isabelle
  imports Complex_Main
begin

section \<open>Python values, numbers and strings\<close>

text \<open>
  The analyzers of \<^verbatim>\<open>analyzers.py\<close> return nested dictionaries of numbers, strings
  and lists.  A dictionary is an association list in insertion order.  Python compares
  \<^verbatim>\<open>int\<close> and \<^verbatim>\<open>float\<close> by value (\<^verbatim>\<open>0 == 0.0\<close>), so one
  constructor holds every number; a \<^verbatim>\<open>float\<close> is idealised as the exact rational
  it stands for, which leaves IEEE rounding errors of the divisions out of the model.
\<close>

datatype pyval =
    PNum rat
  | PStr string
  | PList "pyval list"
  | PDict "(string \<times> pyval) list"

type_synonym pydict = "(string \<times> pyval) list"

datatype error =
    KeyError string
  | IndexError string
  | OverflowError string
  | ValueError string
  | ZeroDivisionError string

definition keys :: "pydict \<Rightarrow> string list" where
  "keys d = map fst d"

definition getitem :: "pydict \<Rightarrow> string \<Rightarrow> error + pyval" where
  \<comment> \<open>\<^verbatim>\<open>d[k]\<close>: raises \<^verbatim>\<open>KeyError(k)\<close> when the key is absent.\<close>
  "getitem d k = (case map_of d k of None \<Rightarrow> Inl (KeyError k) | Some v \<Rightarrow> Inr v)"

definition round_half_even :: "rat \<Rightarrow> int" where
  "round_half_even x =
     (let f = \<lfloor>x\<rfloor>; r = x - of_int f
      in if r < 1 / 2 then f else if 1 / 2 < r then f + 1 else if even f then f else f + 1)"

definition py_round :: "nat \<Rightarrow> rat \<Rightarrow> rat" where
  \<comment> \<open>\<^verbatim>\<open>round(x, d)\<close>: to the nearest multiple of \<open>10\<^sup>-\<^sup>d\<close>, ties to even.\<close>
  "py_round d x = of_int (round_half_even (x * 10 ^ d)) / 10 ^ d"

definition py_int :: "rat \<Rightarrow> int" where
  \<comment> \<open>\<^verbatim>\<open>int(x)\<close> truncates toward zero.\<close>
  "py_int x = (if x < 0 then - \<lfloor>- x\<rfloor> else \<lfloor>x\<rfloor>)"

definition mean :: "int list \<Rightarrow> rat" where
  \<comment> \<open>\<^verbatim>\<open>np.mean\<close> on a non-empty list; every call site guards the empty list.\<close>
  "mean xs = of_int (sum_list xs) / of_nat (length xs)"

definition digit_char :: "nat \<Rightarrow> char" where
  "digit_char d = ''0123456789'' ! d"

fun str_nat :: "nat \<Rightarrow> string" where
  "str_nat n =
     (if n < 10 then [digit_char n] else str_nat (n div 10) @ [digit_char (n mod 10)])"

declare str_nat.simps [simp del]

definition fmt_f :: "nat \<Rightarrow> rat \<Rightarrow> string" where
  \<comment> \<open>The format specification \<^verbatim>\<open>:.df\<close> of an f-string.\<close>
  "fmt_f d x =
     (let k = nat (round_half_even (\<bar>x\<bar> * 10 ^ d));
          ip = str_nat (k div 10 ^ d);
          fp = str_nat (k mod 10 ^ d)
      in (if x < 0 then ''-'' else '''') @ ip @
         (if d = 0 then '''' else ''.'' @ replicate (d - length fp) (CHR ''0'') @ fp))"

definition fmt_plus_d :: "int \<Rightarrow> string" where
  \<comment> \<open>The format specification \<^verbatim>\<open>:+d\<close>.\<close>
  "fmt_plus_d i = (if i < 0 then ''-'' else ''+'') @ str_nat (nat \<bar>i\<bar>)"

subsection \<open>\<^verbatim>\<open>collections.Counter\<close>\<close>

text \<open>
  A counter keeps its keys in the order of their first insertion, which is the order
  \<^verbatim>\<open>max(counter, key=counter.get)\<close> iterates in: the first key holding the largest
  count wins.
\<close>

type_synonym counter = "(string \<times> nat) list"

fun counter_inc :: "string \<Rightarrow> counter \<Rightarrow> counter" where
  "counter_inc k [] = [(k, 1)]"
| "counter_inc k ((k', n) # c) =
     (if k' = k then (k', n + 1) # c else (k', n) # counter_inc k c)"

definition counter_get :: "counter \<Rightarrow> string \<Rightarrow> nat" where
  \<comment> \<open>\<^verbatim>\<open>counter.get(k, 0)\<close>\<close>
  "counter_get c k = (case map_of c k of None \<Rightarrow> 0 | Some n \<Rightarrow> n)"

fun max_key_from :: "string \<times> nat \<Rightarrow> counter \<Rightarrow> string" where
  "max_key_from best [] = fst best"
| "max_key_from best (p # c) =
     (if snd best < snd p then max_key_from p c else max_key_from best c)"

definition max_key :: "counter \<Rightarrow> error + string" where
  \<comment> \<open>\<^verbatim>\<open>max(c, key=c.get)\<close>; \<^verbatim>\<open>max\<close> of an empty iterable raises.\<close>
  "max_key c =
     (case c of [] \<Rightarrow> Inl (ValueError ''max() arg is an empty sequence'')
      | p # c' \<Rightarrow> Inr (max_key_from p c'))"

definition counter_dict :: "counter \<Rightarrow> pydict" where
  "counter_dict c = map (\<lambda>(k, n). (k, PNum (of_nat n))) c"

section \<open>Match records\<close>

text \<open>
  The match dictionaries of \<^verbatim>\<open>mock_data.py\<close> as records.  A key the analyzers
  read with \<^verbatim>\<open>match.get(k, [])\<close> may be absent and is an \<open>option\<close>; a key read
  with \<^verbatim>\<open>match[k]\<close> is a field.  The \<^verbatim>\<open>date\<close> of a match keeps the date and
  time that \<^verbatim>\<open>isoformat\<close> prints: the day as a proleptic Gregorian ordinal
  (day 1 is 0001-01-01) and the microsecond within the day.
\<close>

record datetime =
  ordinal :: int
  microsecond_of_day :: nat

record val_round =
  round_number :: int
  winner :: string
  team_loadout_value :: int
  enemy_loadout_value :: int
  is_team_eco :: bool
  is_enemy_eco :: bool
  spike_planted :: bool
  spike_site :: "string option"
  spike_coords :: "(int \<times> int) option"
  first_blood_team :: string
  first_blood_location :: "int \<times> int"
  round_duration :: int

record val_match =
  val_match_id :: string
  val_date :: datetime
  val_team :: string
  val_opponent :: string
  team_score :: int
  enemy_score :: int
  val_won :: bool
  val_map :: string
  rounds :: "val_round list option"

record jungle_position =
  position_timestamp :: int
  position_x :: int
  position_y :: int
  lane :: string

record objective =
  objective_timestamp :: int
  objective_team :: string
  dragon_type :: "string option"
  objective_x :: int
  objective_y :: int

record kill =
  kill_timestamp :: int
  killer :: string
  victim :: string
  kill_x :: int
  kill_y :: int
  is_first_blood :: bool

record gold_update =
  gold_timestamp :: int
  team_gold :: int
  enemy_gold :: int
  gold_difference :: int

record lol_match =
  lol_match_id :: string
  lol_date :: datetime
  lol_team :: string
  lol_opponent :: string
  lol_won :: bool
  duration :: int
  kills :: "kill list"
  dragons :: "objective list option"
  barons :: "objective list option"
  heralds :: "objective list option"
  gold_updates :: "gold_update list option"
  jungle_positions :: "jungle_position list option"

definition get_list :: "'a list option \<Rightarrow> 'a list" where
  \<comment> \<open>\<^verbatim>\<open>match.get(k, [])\<close>\<close>
  "get_list v = (case v of None \<Rightarrow> [] | Some xs \<Rightarrow> xs)"

definition percent :: "nat \<Rightarrow> nat \<Rightarrow> rat" where
  \<comment> \<open>\<^verbatim>\<open>(a / b * 100) if b > 0 else 0\<close>\<close>
  "percent a b = (if 0 < b then of_nat a / of_nat b * 100 else 0)"

section \<open>\<^verbatim>\<open>ValorantAnalyzer\<close>\<close>

record val_analyzer =
  val_matches :: "val_match list"
  val_team_name :: string

definition ValorantAnalyzer :: "val_match list \<Rightarrow> val_analyzer" where
  "ValorantAnalyzer ms =
     \<lparr>val_matches = ms,
      val_team_name = (case ms of [] \<Rightarrow> ''Unknown'' | m # _ \<Rightarrow> val_team m)\<rparr>"

subsection \<open>\<^verbatim>\<open>calculate_opening_duel_winrate\<close>\<close>

record duel_counts =
  total_rounds :: nat
  team_first_bloods :: nat
  rounds_won_with_fb :: nat
  rounds_won_without_fb :: nat

definition duel_round :: "string \<Rightarrow> val_round \<Rightarrow> duel_counts \<Rightarrow> duel_counts" where
  "duel_round team_name round_data c =
     (let c = c\<lparr>total_rounds := total_rounds c + 1\<rparr>;
          got_first_blood = (first_blood_team round_data = team_name);
          won_round = (winner round_data = team_name)
      in if got_first_blood then
           (let c = c\<lparr>team_first_bloods := team_first_bloods c + 1\<rparr>
            in if won_round then c\<lparr>rounds_won_with_fb := rounds_won_with_fb c + 1\<rparr> else c)
         else if won_round then c\<lparr>rounds_won_without_fb := rounds_won_without_fb c + 1\<rparr>
         else c)"

definition duel_loop :: "val_analyzer \<Rightarrow> duel_counts" where
  "duel_loop a =
     fold (\<lambda>m. fold (duel_round (val_team_name a)) (get_list (rounds m))) (val_matches a)
       \<lparr>total_rounds = 0, team_first_bloods = 0, rounds_won_with_fb = 0,
        rounds_won_without_fb = 0\<rparr>"

definition fb_rate :: "val_analyzer \<Rightarrow> rat" where
  "fb_rate a = (let c = duel_loop a in percent (team_first_bloods c) (total_rounds c))"

definition fb_conversion :: "val_analyzer \<Rightarrow> rat" where
  "fb_conversion a =
     (let c = duel_loop a in percent (rounds_won_with_fb c) (team_first_bloods c))"

definition calculate_opening_duel_winrate :: "val_analyzer \<Rightarrow> pydict" where
  "calculate_opening_duel_winrate a =
     (let c = duel_loop a
      in [(''first_blood_rate'', PNum (py_round 1 (fb_rate a))),
          (''first_blood_conversion'', PNum (py_round 1 (fb_conversion a))),
          (''rounds_with_first_blood'', PNum (of_nat (team_first_bloods c))),
          (''rounds_won_with_fb'', PNum (of_nat (rounds_won_with_fb c))),
          (''rounds_won_without_fb'', PNum (of_nat (rounds_won_without_fb c))),
          (''total_rounds'', PNum (of_nat (total_rounds c))),
          (''insight'', PStr ((if 55 < fb_rate a then ''ELITE'' else ''AVERAGE'') @
             '' opening duelist ('' @ fmt_f 1 (fb_rate a) @ ''% FB rate, '' @
             fmt_f 1 (fb_conversion a) @ ''% conversion)''))])"

subsection \<open>\<^verbatim>\<open>calculate_site_bias\<close>\<close>

definition site_round :: "string \<Rightarrow> val_round \<Rightarrow> counter \<times> counter \<Rightarrow> counter \<times> counter"
  where
  \<comment> \<open>\<^verbatim>\<open>if spike_site:\<close> is false for \<^verbatim>\<open>None\<close> and for the empty string.\<close>
  "site_round team_name round_data acc =
     (case acc of (site_attacks, site_wins) \<Rightarrow>
        (case spike_site round_data of
           None \<Rightarrow> acc
         | Some site \<Rightarrow>
             if site = [] then acc
             else (counter_inc site site_attacks,
                   if winner round_data = team_name then counter_inc site site_wins
                   else site_wins)))"

definition site_loop :: "val_analyzer \<Rightarrow> counter \<times> counter" where
  "site_loop a =
     fold (\<lambda>m. fold (site_round (val_team_name a)) (get_list (rounds m))) (val_matches a)
       ([], [])"

definition site_percentages :: "counter \<Rightarrow> pydict" where
  "site_percentages site_attacks =
     (let total_attacks = sum_list (map snd site_attacks)
      in map (\<lambda>site. (''site_'' @ site @ ''_percent'',
                PNum (if 0 < total_attacks
                      then py_round 1 (of_nat (counter_get site_attacks site) /
                                       of_nat total_attacks * 100)
                      else 0)))
           [''A'', ''B'', ''C''])"

definition site_win_rates :: "counter \<Rightarrow> counter \<Rightarrow> pydict" where
  "site_win_rates site_attacks site_wins =
     map (\<lambda>site. (''site_'' @ site @ ''_winrate'',
            PNum (let attacks = counter_get site_attacks site
                  in if 0 < attacks
                     then py_round 1 (of_nat (counter_get site_wins site) /
                                      of_nat attacks * 100)
                     else 0)))
       [''A'', ''B'', ''C'']"

definition favorite_site :: "counter \<Rightarrow> string" where
  \<comment> \<open>\<^verbatim>\<open>max(site_attacks, key=site_attacks.get) if site_attacks else "Unknown"\<close>\<close>
  "favorite_site site_attacks =
     (case site_attacks of [] \<Rightarrow> ''Unknown'' | p # c \<Rightarrow> max_key_from p c)"

definition calculate_site_bias :: "val_analyzer \<Rightarrow> error + pydict" where
  \<comment> \<open>The entries of the returned dictionary are evaluated in order; the last one, the
      insight, subscripts \<^verbatim>\<open>site_percentages\<close> with a key built from the favourite
      site.\<close>
  "calculate_site_bias a =
     (case site_loop a of (site_attacks, site_wins) \<Rightarrow>
        (let fav = favorite_site site_attacks
         in case getitem (site_percentages site_attacks) (''site_'' @ fav @ ''_percent'') of
              Inl e \<Rightarrow> Inl e
            | Inr (PNum p) \<Rightarrow>
                Inr (site_percentages site_attacks @
                     site_win_rates site_attacks site_wins @
                     [(''total_spike_plants'', PNum (of_nat (sum_list (map snd site_attacks)))),
                      (''favorite_site'', PStr fav),
                      (''favorite_site_attacks'', PNum (of_nat (counter_get site_attacks fav))),
                      (''site_attack_distribution'', PDict (counter_dict site_attacks)),
                      (''insight'', PStr (''HEAVILY favors '' @ fav @ ''-Site ('' @
                         fmt_f 0 p @ ''% of attacks)''))])
            | Inr _ \<Rightarrow> Inl (ValueError ''Unknown format code'')))"

subsection \<open>\<^verbatim>\<open>calculate_eco_conversion\<close>\<close>

record eco_counts =
  eco_rounds :: nat
  eco_wins :: nat
  force_rounds :: nat
  force_wins :: nat
  full_buy_rounds :: nat
  full_buy_wins :: nat

definition eco_round :: "string \<Rightarrow> val_round \<Rightarrow> eco_counts \<Rightarrow> eco_counts" where
  "eco_round team_name round_data c =
     (let team_loadout = team_loadout_value round_data;
          won_round = (winner round_data = team_name)
      in if team_loadout < 2000 then
           (let c = c\<lparr>eco_rounds := eco_rounds c + 1\<rparr>
            in if won_round then c\<lparr>eco_wins := eco_wins c + 1\<rparr> else c)
         else if 2000 \<le> team_loadout \<and> team_loadout < 3500 then
           (let c = c\<lparr>force_rounds := force_rounds c + 1\<rparr>
            in if won_round then c\<lparr>force_wins := force_wins c + 1\<rparr> else c)
         else
           (let c = c\<lparr>full_buy_rounds := full_buy_rounds c + 1\<rparr>
            in if won_round then c\<lparr>full_buy_wins := full_buy_wins c + 1\<rparr> else c))"

definition eco_loop :: "val_analyzer \<Rightarrow> eco_counts" where
  "eco_loop a =
     fold (\<lambda>m. fold (eco_round (val_team_name a)) (get_list (rounds m))) (val_matches a)
       \<lparr>eco_rounds = 0, eco_wins = 0, force_rounds = 0, force_wins = 0,
        full_buy_rounds = 0, full_buy_wins = 0\<rparr>"

definition eco_conversion_rate :: "val_analyzer \<Rightarrow> rat" where
  "eco_conversion_rate a = (let c = eco_loop a in percent (eco_wins c) (eco_rounds c))"

definition force_winrate :: "val_analyzer \<Rightarrow> rat" where
  "force_winrate a = (let c = eco_loop a in percent (force_wins c) (force_rounds c))"

definition full_buy_winrate :: "val_analyzer \<Rightarrow> rat" where
  "full_buy_winrate a =
     (let c = eco_loop a in percent (full_buy_wins c) (full_buy_rounds c))"

definition calculate_eco_conversion :: "val_analyzer \<Rightarrow> pydict" where
  "calculate_eco_conversion a =
     (let c = eco_loop a
      in [(''eco_conversion_rate'', PNum (py_round 1 (eco_conversion_rate a))),
          (''eco_rounds_played'', PNum (of_nat (eco_rounds c))),
          (''eco_rounds_won'', PNum (of_nat (eco_wins c))),
          (''force_buy_winrate'', PNum (py_round 1 (force_winrate a))),
          (''force_rounds_played'', PNum (of_nat (force_rounds c))),
          (''full_buy_winrate'', PNum (py_round 1 (full_buy_winrate a))),
          (''full_buy_rounds_played'', PNum (of_nat (full_buy_rounds c))),
          (''insight'', PStr ((if 20 < eco_conversion_rate a then ''DANGEROUS''
                               else ''PREDICTABLE'') @
             '' on eco rounds ('' @ fmt_f 1 (eco_conversion_rate a) @ ''% win rate)''))])"

subsection \<open>\<^verbatim>\<open>ValorantAnalyzer.get_complete_analysis\<close>\<close>

fun required_rounds :: "val_match list \<Rightarrow> error + val_round list list" where
  \<comment> \<open>\<^verbatim>\<open>match["rounds"]\<close> for every match, in order; the first absent key raises.\<close>
  "required_rounds [] = Inr []"
| "required_rounds (m # ms) =
     (case rounds m of
        None \<Rightarrow> Inl (KeyError ''rounds'')
      | Some rs \<Rightarrow>
          (case required_rounds ms of Inl e \<Rightarrow> Inl e | Inr rss \<Rightarrow> Inr (rs # rss)))"

definition val_get_complete_analysis :: "val_analyzer \<Rightarrow> error + pydict" where
  "val_get_complete_analysis a =
     (let total_matches = length (val_matches a);
          wins = length (filter val_won (val_matches a));
          win_rate = percent wins total_matches
      in case required_rounds (val_matches a) of
           Inl e \<Rightarrow> Inl e
         | Inr rss \<Rightarrow>
             (let total_rounds = sum_list (map length rss);
                  team_rounds_won =
                    sum_list (map (\<lambda>rs. length (filter (\<lambda>r. winner r = val_team_name a) rs))
                                rss);
                  round_win_rate = percent team_rounds_won total_rounds
              in case calculate_site_bias a of
                   Inl e \<Rightarrow> Inl e
                 | Inr site_bias \<Rightarrow>
                     Inr [(''team_name'', PStr (val_team_name a)),
                          (''matches_analyzed'', PNum (of_nat total_matches)),
                          (''match_win_rate'', PNum (py_round 1 win_rate)),
                          (''round_win_rate'', PNum (py_round 1 round_win_rate)),
                          (''total_rounds_played'', PNum (of_nat total_rounds)),
                          (''opening_duel_stats'', PDict (calculate_opening_duel_winrate a)),
                          (''site_bias_stats'', PDict site_bias),
                          (''economy_stats'', PDict (calculate_eco_conversion a))]))"

definition analyze_valorant_team :: "val_match list \<Rightarrow> error + pydict" where
  "analyze_valorant_team ms = val_get_complete_analysis (ValorantAnalyzer ms)"

section \<open>\<^verbatim>\<open>LolAnalyzer\<close>\<close>

record lol_analyzer =
  lol_matches :: "lol_match list"
  lol_team_name :: string

definition LolAnalyzer :: "lol_match list \<Rightarrow> lol_analyzer" where
  "LolAnalyzer ms =
     \<lparr>lol_matches = ms,
      lol_team_name = (case ms of [] \<Rightarrow> ''Unknown'' | m # _ \<Rightarrow> lol_team m)\<rparr>"

subsection \<open>\<^verbatim>\<open>calculate_jungle_proximity\<close>\<close>

definition all_positions :: "lol_analyzer \<Rightarrow> jungle_position list" where
  \<comment> \<open>the loop of \<^verbatim>\<open>all_positions.extend(...)\<close>\<close>
  "all_positions a = fold (\<lambda>m acc. acc @ get_list (jungle_positions m)) (lol_matches a) []"

definition lane_counter :: "lol_analyzer \<Rightarrow> counter" where
  "lane_counter a = fold counter_inc (map lane (all_positions a)) []"

definition lane_percent :: "lol_analyzer \<Rightarrow> string \<Rightarrow> rat" where
  \<comment> \<open>\<^verbatim>\<open>(lane_counter.get(l, 0) / total) * 100\<close>, computed only when there are samples\<close>
  "lane_percent a l =
     of_nat (counter_get (lane_counter a) l) / of_nat (length (all_positions a)) * 100"

definition calculate_jungle_proximity :: "lol_analyzer \<Rightarrow> error + pydict" where
  "calculate_jungle_proximity a =
     (if all_positions a = [] then
        Inr [(''top_lane_percent'', PNum 0),
             (''mid_lane_percent'', PNum 0),
             (''bot_lane_percent'', PNum 0),
             (''positions'', PList [])]
      else
        (let top_percent = lane_percent a ''Top'';
             mid_percent = lane_percent a ''Mid'';
             bot_percent = lane_percent a ''Bot'';
             heatmap_data =
               [(''x'', PList (map (\<lambda>pos. PNum (of_int (position_x pos))) (all_positions a))),
                (''y'', PList (map (\<lambda>pos. PNum (of_int (position_y pos))) (all_positions a))),
                (''lane'', PList (map (\<lambda>pos. PStr (lane pos)) (all_positions a)))]
         in case max_key (lane_counter a) of
              Inl e \<Rightarrow> Inl e
            | Inr busiest \<Rightarrow>
                Inr [(''top_lane_percent'', PNum (py_round 1 top_percent)),
                     (''mid_lane_percent'', PNum (py_round 1 mid_percent)),
                     (''bot_lane_percent'', PNum (py_round 1 bot_percent)),
                     (''total_samples'', PNum (of_nat (length (all_positions a)))),
                     (''heatmap_data'', PDict heatmap_data),
                     (''insight'', PStr (''Jungler focuses '' @
                        fmt_f 1 (max (max top_percent mid_percent) bot_percent) @
                        ''% on '' @ busiest @ '' lane''))]))"

subsection \<open>\<^verbatim>\<open>calculate_objective_control\<close>\<close>

record objective_counts =
  first_dragons :: nat
  first_dragons_taken :: nat
  total_dragons :: nat
  team_dragons :: nat
  total_heralds :: nat
  team_heralds :: nat

definition capture :: "string \<Rightarrow> objective \<Rightarrow> nat \<times> nat \<Rightarrow> nat \<times> nat" where
  \<comment> \<open>one pass of \<^verbatim>\<open>total += 1; if ev["team"] == self.team_name: team += 1\<close>\<close>
  "capture team_name ev acc =
     (case acc of (seen, taken) \<Rightarrow>
        (seen + 1, if objective_team ev = team_name then taken + 1 else taken))"

definition objective_match :: "string \<Rightarrow> lol_match \<Rightarrow> objective_counts \<Rightarrow> objective_counts"
  where
  "objective_match team_name m c =
     (let ds = get_list (dragons m);
          c = (case ds of
                 [] \<Rightarrow> c
               | d # _ \<Rightarrow>
                   (let c = c\<lparr>first_dragons := first_dragons c + 1\<rparr>
                    in if objective_team d = team_name
                       then c\<lparr>first_dragons_taken := first_dragons_taken c + 1\<rparr> else c));
          dc = fold (capture team_name) ds (total_dragons c, team_dragons c);
          c = c\<lparr>total_dragons := fst dc, team_dragons := snd dc\<rparr>;
          hc = fold (capture team_name) (get_list (heralds m)) (total_heralds c, team_heralds c)
      in c\<lparr>total_heralds := fst hc, team_heralds := snd hc\<rparr>)"

definition objective_loop :: "lol_analyzer \<Rightarrow> objective_counts" where
  "objective_loop a =
     fold (objective_match (lol_team_name a)) (lol_matches a)
       \<lparr>first_dragons = 0, first_dragons_taken = 0, total_dragons = 0, team_dragons = 0,
        total_heralds = 0, team_heralds = 0\<rparr>"

definition baron_loop :: "lol_analyzer \<Rightarrow> nat \<times> nat" where
  "baron_loop a =
     fold (\<lambda>m. fold (capture (lol_team_name a)) (get_list (barons m))) (lol_matches a) (0, 0)"

definition first_dragon_rate :: "lol_analyzer \<Rightarrow> rat" where
  "first_dragon_rate a =
     (let c = objective_loop a in percent (first_dragons_taken c) (first_dragons c))"

definition overall_dragon_rate :: "lol_analyzer \<Rightarrow> rat" where
  "overall_dragon_rate a =
     (let c = objective_loop a in percent (team_dragons c) (total_dragons c))"

definition herald_rate :: "lol_analyzer \<Rightarrow> rat" where
  "herald_rate a = (let c = objective_loop a in percent (team_heralds c) (total_heralds c))"

definition baron_rate :: "lol_analyzer \<Rightarrow> rat" where
  "baron_rate a = (case baron_loop a of (seen, taken) \<Rightarrow> percent taken seen)"

definition calculate_objective_control :: "lol_analyzer \<Rightarrow> pydict" where
  "calculate_objective_control a =
     (let c = objective_loop a; b = baron_loop a
      in [(''first_dragon_rate'', PNum (py_round 1 (first_dragon_rate a))),
          (''overall_dragon_rate'', PNum (py_round 1 (overall_dragon_rate a))),
          (''herald_control_rate'', PNum (py_round 1 (herald_rate a))),
          (''baron_control_rate'', PNum (py_round 1 (baron_rate a))),
          (''total_dragons'', PNum (of_nat (total_dragons c))),
          (''team_dragons'', PNum (of_nat (team_dragons c))),
          (''total_heralds'', PNum (of_nat (total_heralds c))),
          (''team_heralds'', PNum (of_nat (team_heralds c))),
          (''total_barons'', PNum (of_nat (fst b))),
          (''team_barons'', PNum (of_nat (snd b))),
          (''insight'', PStr ((if 70 < first_dragon_rate a then ''DOMINATES''
                               else ''STRUGGLES WITH'') @
             '' early objective control ('' @ fmt_f 0 (first_dragon_rate a) @
             ''% first dragon rate)''))])"

subsection \<open>\<^verbatim>\<open>calculate_gold_efficiency\<close>\<close>

definition gold_bucket ::
  "gold_update \<Rightarrow> int list \<times> int list \<times> int list \<Rightarrow> int list \<times> int list \<times> int list" where
  "gold_bucket update acc =
     (case acc of (gold_at_10, gold_at_15, gold_at_20) \<Rightarrow>
        (let timestamp = gold_timestamp update; gold_diff = gold_difference update
         in if 9 * 60 \<le> timestamp \<and> timestamp \<le> 11 * 60
              then (gold_at_10 @ [gold_diff], gold_at_15, gold_at_20)
            else if 14 * 60 \<le> timestamp \<and> timestamp \<le> 16 * 60
              then (gold_at_10, gold_at_15 @ [gold_diff], gold_at_20)
            else if 19 * 60 \<le> timestamp \<and> timestamp \<le> 21 * 60
              then (gold_at_10, gold_at_15, gold_at_20 @ [gold_diff])
            else acc))"

definition gold_loop :: "lol_analyzer \<Rightarrow> int list \<times> int list \<times> int list" where
  "gold_loop a =
     fold (\<lambda>m. fold gold_bucket (get_list (gold_updates m))) (lol_matches a) ([], [], [])"

definition avg_gold :: "int list \<Rightarrow> rat" where
  \<comment> \<open>\<^verbatim>\<open>np.mean(xs) if xs else 0\<close>\<close>
  "avg_gold xs = (if xs \<noteq> [] then mean xs else 0)"

definition avg_gold_10 :: "lol_analyzer \<Rightarrow> rat" where
  "avg_gold_10 a = (case gold_loop a of (g10, g15, g20) \<Rightarrow> avg_gold g10)"

definition avg_gold_15 :: "lol_analyzer \<Rightarrow> rat" where
  "avg_gold_15 a = (case gold_loop a of (g10, g15, g20) \<Rightarrow> avg_gold g15)"

definition avg_gold_20 :: "lol_analyzer \<Rightarrow> rat" where
  "avg_gold_20 a = (case gold_loop a of (g10, g15, g20) \<Rightarrow> avg_gold g20)"

definition growth_rate :: "lol_analyzer \<Rightarrow> rat" where
  "growth_rate a =
     (if avg_gold_10 a \<noteq> 0 \<and> avg_gold_15 a \<noteq> 0
      then ((avg_gold_15 a - avg_gold_10 a) / 5) * 60
      else 0)"

definition calculate_gold_efficiency :: "lol_analyzer \<Rightarrow> pydict" where
  "calculate_gold_efficiency a =
     (case gold_loop a of (gold_at_10, gold_at_15, gold_at_20) \<Rightarrow>
        [(''gold_diff_at_10min'', PNum (py_round 0 (avg_gold_10 a))),
         (''gold_diff_at_15min'', PNum (py_round 0 (avg_gold_15 a))),
         (''gold_diff_at_20min'', PNum (py_round 0 (avg_gold_20 a))),
         (''gold_growth_rate'', PNum (py_round 0 (growth_rate a))),
         (''samples_at_10'', PNum (of_nat (length gold_at_10))),
         (''samples_at_15'', PNum (of_nat (length gold_at_15))),
         (''samples_at_20'', PNum (of_nat (length gold_at_20))),
         (''insight'', PStr ((if 0 < avg_gold_15 a then ''Strong'' else ''Weak'') @
            '' mid-game scaling ('' @ fmt_plus_d (py_int (avg_gold_15 a)) @ ''g @ 15min)''))])"

subsection \<open>\<^verbatim>\<open>LolAnalyzer.get_complete_analysis\<close>\<close>

definition lol_get_complete_analysis :: "lol_analyzer \<Rightarrow> error + pydict" where
  "lol_get_complete_analysis a =
     (let wins = length (filter lol_won (lol_matches a));
          total_matches = length (lol_matches a);
          win_rate = percent wins total_matches;
          avg_game_duration =
            (if lol_matches a \<noteq> [] then mean (map duration (lol_matches a)) else 0)
      in case calculate_jungle_proximity a of
           Inl e \<Rightarrow> Inl e
         | Inr jungle_proximity \<Rightarrow>
             Inr [(''team_name'', PStr (lol_team_name a)),
                  (''matches_analyzed'', PNum (of_nat total_matches)),
                  (''win_rate'', PNum (py_round 1 win_rate)),
                  (''avg_game_duration_minutes'', PNum (py_round 1 (avg_game_duration / 60))),
                  (''jungle_proximity'', PDict jungle_proximity),
                  (''objective_control'', PDict (calculate_objective_control a)),
                  (''gold_efficiency'', PDict (calculate_gold_efficiency a))])"

definition analyze_lol_team :: "lol_match list \<Rightarrow> error + pydict" where
  "analyze_lol_team ms = lol_get_complete_analysis (LolAnalyzer ms)"

section \<open>\<^verbatim>\<open>MockDataGenerator\<close>\<close>

subsection \<open>The random source and the clock\<close>

text \<open>
  The generator draws from the process-wide source of \<^verbatim>\<open>random\<close> and reads the
  clock once per match.  The source is an infinite sequence of raw draws, handed on from
  call to call; every primitive consumes one draw and maps it onto its range, so that
  each value of the range is reached by some state of the source.  \<^verbatim>\<open>random()\<close> is a
  multiple of \<open>2\<^sup>-\<^sup>5\<^sup>3\<close> in \<open>[0, 1)\<close>, and the decimal literals it is compared
  with are read as exact rationals.  The clock is the value of \<^verbatim>\<open>datetime.now()\<close>,
  taken as constant during one call of the generator.
\<close>

type_synonym rng = "nat \<Rightarrow> nat"

type_synonym 'a gen = "rng \<Rightarrow> error + ('a \<times> rng)"

definition gen_return :: "'a \<Rightarrow> 'a gen" where
  "gen_return x g = Inr (x, g)"

definition gen_bind :: "'a gen \<Rightarrow> ('a \<Rightarrow> 'b gen) \<Rightarrow> 'b gen" where
  "gen_bind m f g = (case m g of Inl e \<Rightarrow> Inl e | Inr (x, g') \<Rightarrow> f x g')"

fun for_each :: "('a \<Rightarrow> 's \<Rightarrow> 's gen) \<Rightarrow> 'a list \<Rightarrow> 's \<Rightarrow> 's gen" where
  \<comment> \<open>a \<^verbatim>\<open>for\<close> loop that updates \<open>acc\<close>; an exception in the body leaves the loop\<close>
  "for_each body [] acc g = Inr (acc, g)"
| "for_each body (x # xs) acc g =
     (case body x acc g of Inl e \<Rightarrow> Inl e | Inr (acc', g') \<Rightarrow> for_each body xs acc' g')"

definition next_raw :: "rng \<Rightarrow> nat \<times> rng" where
  "next_raw g = (g 0, \<lambda>i. g (Suc i))"

definition py_random :: "rat gen" where
  \<comment> \<open>\<^verbatim>\<open>random.random()\<close>\<close>
  "py_random g = (case next_raw g of (r, g') \<Rightarrow> Inr (of_nat (r mod 2 ^ 53) / 2 ^ 53, g'))"

definition randint :: "int \<Rightarrow> int \<Rightarrow> int gen" where
  \<comment> \<open>\<^verbatim>\<open>random.randint(lo, hi)\<close>, both ends included; an empty range raises\<close>
  "randint lo hi g =
     (if hi < lo then Inl (ValueError ''empty range for randrange()'')
      else case next_raw g of (r, g') \<Rightarrow> Inr (lo + int r mod (hi - lo + 1), g'))"

definition choice :: "'a list \<Rightarrow> 'a gen" where
  \<comment> \<open>\<^verbatim>\<open>random.choice(xs)\<close>\<close>
  "choice xs g =
     (if xs = [] then Inl (IndexError ''Cannot choose from an empty sequence'')
      else case next_raw g of (r, g') \<Rightarrow> Inr (xs ! (r mod length xs), g'))"


definition py_range :: "int \<Rightarrow> int \<Rightarrow> int \<Rightarrow> int list" where
  \<comment> \<open>\<^verbatim>\<open>range(start, stop, step)\<close> for a positive step\<close>
  "py_range start stop step =
     map (\<lambda>i. start + int i * step) [0 ..< nat ((stop - start + step - 1) div step)]"

definition str_int :: "int \<Rightarrow> string" where
  "str_int i = (if i < 0 then ''-'' else '''') @ str_nat (nat \<bar>i\<bar>)"

definition timedelta_days :: "int \<Rightarrow> error + int" where
  \<comment> \<open>\<^verbatim>\<open>timedelta(days=d)\<close>\<close>
  "timedelta_days d =
     (if 999999999 < \<bar>d\<bar>
      then Inl (OverflowError (''days='' @ str_int d @ ''; must have magnitude <= 999999999''))
      else Inr d)"

definition MAXORDINAL :: int where
  \<comment> \<open>the ordinal of 9999-12-31\<close>
  "MAXORDINAL = 3652059"

definition datetime_sub :: "datetime \<Rightarrow> int \<Rightarrow> error + datetime" where
  \<comment> \<open>\<^verbatim>\<open>dt - timedelta(days=d)\<close>: the day must stay within years 1 to 9999\<close>
  "datetime_sub dt d =
     (let day = ordinal dt - d
      in if 0 < day \<and> day \<le> MAXORDINAL then Inr (dt\<lparr>ordinal := day\<rparr>)
         else Inl (OverflowError ''date value out of range''))"

definition days_ago :: "datetime \<Rightarrow> int \<Rightarrow> datetime gen" where
  \<comment> \<open>\<^verbatim>\<open>datetime.now() - timedelta(days=d)\<close>\<close>
  "days_ago now d g =
     (case timedelta_days d of
        Inl e \<Rightarrow> Inl e
      | Inr d' \<Rightarrow> (case datetime_sub now d' of Inl e \<Rightarrow> Inl e | Inr dt \<Rightarrow> Inr (dt, g)))"

subsection \<open>\<^verbatim>\<open>generate_lol_match_data\<close>\<close>

definition LOL_MAP_SIZE :: int where
  "LOL_MAP_SIZE = 14820"

definition kill_body :: "string \<Rightarrow> int \<Rightarrow> int \<Rightarrow> kill list \<Rightarrow> kill list gen" where
  "kill_body team_name game_duration k kills_acc =
     gen_bind (randint 180 game_duration) (\<lambda>timestamp.
     gen_bind (randint 1000 (LOL_MAP_SIZE - 1000)) (\<lambda>x.
     gen_bind (randint 1000 (LOL_MAP_SIZE - 1000)) (\<lambda>y.
     gen_return (kills_acc @
       [\<lparr>kill_timestamp = timestamp, killer = team_name, victim = ''Enemy Team'',
         kill_x = x, kill_y = y, is_first_blood = (k = 0)\<rparr>]))))"

definition dragon_spawn_times :: "int list" where
  "dragon_spawn_times = [300, 600, 900, 1200, 1500, 1800, 2100, 2400]"

definition dragon_body ::
  "string \<Rightarrow> bool \<Rightarrow> int \<Rightarrow> int \<Rightarrow> objective list \<Rightarrow> objective list gen" where
  \<comment> \<open>\<^verbatim>\<open>and\<close> draws from the source only when the spawn time is before the end\<close>
  "dragon_body team_name won game_duration spawn_time dragons_acc =
     (if spawn_time < game_duration then
        gen_bind py_random (\<lambda>u.
          if u < 8 / 10 then
            gen_bind py_random (\<lambda>v.
            let taken_by_team = (v < (if won then 75 / 100 else 35 / 100)) in
            gen_bind (randint 0 120) (\<lambda>delay.
            gen_bind (choice [''Cloud'', ''Infernal'', ''Ocean'', ''Mountain'', ''Elder''])
              (\<lambda>kind.
            gen_return (dragons_acc @
              [\<lparr>objective_timestamp = spawn_time + delay,
                objective_team = (if taken_by_team then team_name else ''Enemy Team''),
                dragon_type = Some kind, objective_x = 9800, objective_y = 4200\<rparr>]))))
          else gen_return dragons_acc)
      else gen_return dragons_acc)"

definition baron_body ::
  "string \<Rightarrow> bool \<Rightarrow> int \<Rightarrow> int \<Rightarrow> objective list \<Rightarrow> objective list gen" where
  "baron_body team_name won game_duration b barons_acc =
     gen_bind (randint 1200 (game_duration - 60)) (\<lambda>timestamp.
     gen_bind py_random (\<lambda>v.
     let taken_by_team = (v < (if won then 8 / 10 else 2 / 10)) in
     gen_return (barons_acc @
       [\<lparr>objective_timestamp = timestamp,
         objective_team = (if taken_by_team then team_name else ''Enemy Team''),
         dragon_type = None, objective_x = 5200, objective_y = 10400\<rparr>])))"

definition gen_barons :: "string \<Rightarrow> bool \<Rightarrow> int \<Rightarrow> objective list gen" where
  "gen_barons team_name won game_duration =
     (if 1200 < game_duration then
        gen_bind (randint 0 2) (\<lambda>num_barons.
          for_each (baron_body team_name won game_duration) (py_range 0 num_barons 1) [])
      else gen_return [])"

definition herald_body ::
  "string \<Rightarrow> bool \<Rightarrow> int \<Rightarrow> int \<Rightarrow> objective list \<Rightarrow> objective list gen" where
  "herald_body team_name won game_duration h heralds_acc =
     gen_bind (randint 480 (min 1185 game_duration)) (\<lambda>timestamp.
     gen_bind py_random (\<lambda>v.
     let taken_by_team = (v < (if won then 7 / 10 else 3 / 10)) in
     gen_return (heralds_acc @
       [\<lparr>objective_timestamp = timestamp,
         objective_team = (if taken_by_team then team_name else ''Enemy Team''),
         dragon_type = None, objective_x = 5200, objective_y = 10400\<rparr>])))"

definition gen_heralds :: "string \<Rightarrow> bool \<Rightarrow> int \<Rightarrow> objective list gen" where
  "gen_heralds team_name won game_duration =
     (if 480 < game_duration then
        gen_bind (randint 0 2) (\<lambda>num_heralds.
          for_each (herald_body team_name won game_duration) (py_range 0 num_heralds 1) [])
      else gen_return [])"

definition gold_body :: "int \<Rightarrow> int \<Rightarrow> gold_update list \<Rightarrow> gold_update list gen" where
  "gold_body base_gold_advantage minute gold_acc =
     gen_bind (randint (- 300) 300) (\<lambda>variance.
     let gold_diff = base_gold_advantage + variance + minute * 50 in
     gen_return (gold_acc @
       [\<lparr>gold_timestamp = minute * 60,
         team_gold = 15000 + minute * 300 + gold_diff,
         enemy_gold = 15000 + minute * 300,
         gold_difference = gold_diff\<rparr>]))"

definition position_body :: "int \<Rightarrow> int \<Rightarrow> jungle_position list \<Rightarrow> jungle_position list gen"
  where
  "position_body game_duration i positions_acc =
     gen_bind (randint 0 game_duration) (\<lambda>timestamp.
     gen_bind py_random (\<lambda>lane_bias.
     gen_bind
       (if lane_bias < 35 / 100 then
          gen_bind (randint 1000 7000) (\<lambda>x.
          gen_bind (randint 10000 14000) (\<lambda>y. gen_return (x, y, ''Top'')))
        else if lane_bias < 70 / 100 then
          gen_bind (randint 5000 10000) (\<lambda>x.
          gen_bind (randint 5000 10000) (\<lambda>y. gen_return (x, y, ''Mid'')))
        else
          gen_bind (randint 8000 14000) (\<lambda>x.
          gen_bind (randint 1000 5000) (\<lambda>y. gen_return (x, y, ''Bot''))))
       (\<lambda>(x, y, l).
     gen_return (positions_acc @
       [\<lparr>position_timestamp = timestamp, position_x = x, position_y = y, lane = l\<rparr>]))))"

definition lol_match_body ::
  "datetime \<Rightarrow> string \<Rightarrow> int \<Rightarrow> lol_match list \<Rightarrow> lol_match list gen" where
  "lol_match_body now team_name match_id matches =
     gen_bind (days_ago now (match_id * 3)) (\<lambda>match_date.
     gen_bind py_random (\<lambda>u.
     let won = (u < 7 / 10) in
     gen_bind (randint 1500 2400) (\<lambda>game_duration.
     gen_bind (if won then randint 15 35 else randint 8 20) (\<lambda>num_kills.
     gen_bind (for_each (kill_body team_name game_duration) (py_range 0 num_kills 1) [])
       (\<lambda>kills_list.
     gen_bind (for_each (dragon_body team_name won game_duration) dragon_spawn_times [])
       (\<lambda>dragons_list.
     gen_bind (gen_barons team_name won game_duration) (\<lambda>barons_list.
     gen_bind (gen_heralds team_name won game_duration) (\<lambda>heralds_list.
     let base_gold_advantage = (if won then 500 else - 500) in
     gen_bind (for_each (gold_body base_gold_advantage)
                 (py_range 5 (game_duration div 60 + 1) 5) [])
       (\<lambda>gold_list.
     gen_bind (randint 100 200) (\<lambda>num_position_samples.
     gen_bind (for_each (position_body game_duration) (py_range 0 num_position_samples 1) [])
       (\<lambda>positions_list.
     gen_return (matches @
       [\<lparr>lol_match_id = ''LOL_'' @ str_int match_id,
         lol_date = match_date,
         lol_team = team_name,
         lol_opponent = ''Team_'' @ str_int match_id,
         lol_won = won,
         duration = game_duration,
         kills = sort_key kill_timestamp kills_list,
         dragons = Some (sort_key objective_timestamp dragons_list),
         barons = Some (sort_key objective_timestamp barons_list),
         heralds = Some (sort_key objective_timestamp heralds_list),
         gold_updates = Some (sort_key gold_timestamp gold_list),
         jungle_positions = Some (sort_key position_timestamp positions_list)\<rparr>])
     )))))))))))"

definition generate_lol_match_data ::
  "datetime \<Rightarrow> string \<Rightarrow> int \<Rightarrow> lol_match list gen" where
  "generate_lol_match_data now team_name num_matches =
     for_each (lol_match_body now team_name) (py_range 1 (num_matches + 1) 1) []"

subsection \<open>\<^verbatim>\<open>generate_valorant_match_data\<close>\<close>





section \<open>Method calls on an analyzer object\<close>







section \<open>Reference quantities\<close>












definition all_samples :: "lol_analyzer \<Rightarrow> jungle_position list" where
  "all_samples a = concat (map (\<lambda>m. get_list (jungle_positions m)) (lol_matches a))"

definition all_gold_updates :: "lol_analyzer \<Rightarrow> gold_update list" where
  "all_gold_updates a = concat (map (\<lambda>m. get_list (gold_updates m)) (lol_matches a))"

definition around :: "int \<Rightarrow> gold_update \<Rightarrow> bool" where
  \<comment> \<open>within one minute of the given minute\<close>
  "around minute u =
     ((minute - 1) * 60 \<le> gold_timestamp u \<and> gold_timestamp u \<le> (minute + 1) * 60)"

text \<open>
  The timestamp invariant of a generated match, and total correctness of a generator: from
  every state of the random source it returns a value, and the value satisfies \<open>P\<close>.
\<close>

definition timestamps_within :: "int \<Rightarrow> int list \<Rightarrow> bool" where
  "timestamps_within d ts = list_all (\<lambda>t. 0 \<le> t \<and> t \<le> d) ts"

definition dragons_within :: "lol_match \<Rightarrow> bool" where
  "dragons_within m =
     timestamps_within (duration m) (map objective_timestamp (get_list (dragons m)))"

definition other_events_within :: "lol_match \<Rightarrow> bool" where
  "other_events_within m =
     (timestamps_within (duration m) (map kill_timestamp (kills m)) \<and>
      timestamps_within (duration m) (map objective_timestamp (get_list (barons m))) \<and>
      timestamps_within (duration m) (map objective_timestamp (get_list (heralds m))) \<and>
      timestamps_within (duration m) (map gold_timestamp (get_list (gold_updates m))) \<and>
      timestamps_within (duration m) (map position_timestamp (get_list (jungle_positions m))))"

definition succeeds :: "'a gen \<Rightarrow> ('a \<Rightarrow> bool) \<Rightarrow> bool" where
  "succeeds m P = (\<forall>g. \<exists>x g'. m g = Inr (x, g') \<and> P x)"

section \<open>Example inputs\<close>





definition example_gold :: "int \<Rightarrow> int \<Rightarrow> gold_update" where
  "example_gold t diff =
     \<lparr>gold_timestamp = t, team_gold = 18000 + diff, enemy_gold = 18000,
      gold_difference = diff\<rparr>"

definition example_position :: "int \<Rightarrow> string \<Rightarrow> jungle_position" where
  "example_position t l =
     \<lparr>position_timestamp = t, position_x = 5000, position_y = 5000, lane = l\<rparr>"

definition example_lol_match ::
  "bool \<Rightarrow> objective list \<Rightarrow> gold_update list \<Rightarrow> jungle_position list \<Rightarrow> lol_match" where
  "example_lol_match w ds gs ps =
     \<lparr>lol_match_id = ''LOL_1'', lol_date = \<lparr>ordinal = 739920, microsecond_of_day = 0\<rparr>,
      lol_team = ''Cloud9'', lol_opponent = ''Team_1'', lol_won = w, duration = 1800,
      kills = [], dragons = Some ds, barons = Some [], heralds = Some [],
      gold_updates = Some gs, jungle_positions = Some ps\<rparr>"


definition gold_scenario :: lol_analyzer where
  "gold_scenario =
     LolAnalyzer [example_lol_match True [] [example_gold 600 100, example_gold 900 600] []]"

definition lane_scenario :: lol_analyzer where
  "lane_scenario =
     LolAnalyzer
       [example_lol_match True [] []
          [example_position 10 ''Top'', example_position 20 ''Mid'',
           example_position 30 ''Bot'']]"

definition river_scenario :: lol_analyzer where
  "river_scenario = LolAnalyzer [example_lol_match True [] [] [example_position 10 ''River'']]"

definition example_now :: datetime where
  \<comment> \<open>3 November 2026, at midnight\<close>
  "example_now = \<lparr>ordinal = 739923, microsecond_of_day = 0\<rparr>"

section \<open>Verified properties\<close>

subsection \<open>Rounding\<close>



subsection \<open>The empty match list\<close>

lemma lol_empty_list:
  "analyze_lol_team [] =
     Inr [(''team_name'', PStr ''Unknown''), (''matches_analyzed'', PNum 0),
          (''win_rate'', PNum 0), (''avg_game_duration_minutes'', PNum 0),
          (''jungle_proximity'', PDict
             [(''top_lane_percent'', PNum 0), (''mid_lane_percent'', PNum 0),
              (''bot_lane_percent'', PNum 0), (''positions'', PList [])]),
          (''objective_control'', PDict
             [(''first_dragon_rate'', PNum 0), (''overall_dragon_rate'', PNum 0),
              (''herald_control_rate'', PNum 0), (''baron_control_rate'', PNum 0),
              (''total_dragons'', PNum 0), (''team_dragons'', PNum 0),
              (''total_heralds'', PNum 0), (''team_heralds'', PNum 0),
              (''total_barons'', PNum 0), (''team_barons'', PNum 0),
              (''insight'', PStr
                 ''STRUGGLES WITH early objective control (0% first dragon rate)'')]),
          (''gold_efficiency'', PDict
             [(''gold_diff_at_10min'', PNum 0), (''gold_diff_at_15min'', PNum 0),
              (''gold_diff_at_20min'', PNum 0), (''gold_growth_rate'', PNum 0),
              (''samples_at_10'', PNum 0), (''samples_at_15'', PNum 0),
              (''samples_at_20'', PNum 0),
              (''insight'', PStr ''Weak mid-game scaling (+0g @ 15min)'')])]"
  by code_simp

lemma empty_list_team_name:
  "lol_team_name (LolAnalyzer []) = ''Unknown''"
  "val_team_name (ValorantAnalyzer []) = ''Unknown''"
  by (simp_all add: LolAnalyzer_def ValorantAnalyzer_def)

lemma val_empty_list_duels:
  "calculate_opening_duel_winrate (ValorantAnalyzer []) =
     [(''first_blood_rate'', PNum 0), (''first_blood_conversion'', PNum 0),
      (''rounds_with_first_blood'', PNum 0), (''rounds_won_with_fb'', PNum 0),
      (''rounds_won_without_fb'', PNum 0), (''total_rounds'', PNum 0),
      (''insight'', PStr ''AVERAGE opening duelist (0.0% FB rate, 0.0% conversion)'')]"
  by code_simp

lemma val_empty_list_economy:
  "calculate_eco_conversion (ValorantAnalyzer []) =
     [(''eco_conversion_rate'', PNum 0), (''eco_rounds_played'', PNum 0),
      (''eco_rounds_won'', PNum 0), (''force_buy_winrate'', PNum 0),
      (''force_rounds_played'', PNum 0), (''full_buy_winrate'', PNum 0),
      (''full_buy_rounds_played'', PNum 0),
      (''insight'', PStr ''PREDICTABLE on eco rounds (0.0% win rate)'')]"
  by code_simp

text \<open>
  Claim C1 (an empty match list gives neutral metrics from every computation of both
  aggregators, without an exception).  The League of Legends aggregator and two of the
  three VALORANT metric groups do so (lemmas \<open>lol_empty_list\<close>,
  \<open>val_empty_list_duels\<close>, \<open>val_empty_list_economy\<close>).  The site-bias group does
  not: with no spike plant the favourite site is the sentinel \<^verbatim>\<open>"Unknown"\<close>, the
  insight subscripts the percentages with \<^verbatim>\<open>site_Unknown_percent\<close>, and the
  \<^verbatim>\<open>KeyError\<close> leaves \<^verbatim>\<open>calculate_site_bias\<close> and with it the complete VALORANT
  analysis.
\<close>

theorem empty_list_site_bias_raises:
  "calculate_site_bias (ValorantAnalyzer []) = Inl (KeyError ''site_Unknown_percent'') \<and>
   val_get_complete_analysis (ValorantAnalyzer []) = Inl (KeyError ''site_Unknown_percent'') \<and>
   analyze_valorant_team [] = Inl (KeyError ''site_Unknown_percent'')"
  by (simp add: analyze_valorant_team_def val_get_complete_analysis_def
      calculate_site_bias_def ValorantAnalyzer_def site_loop_def favorite_site_def
      site_percentages_def getitem_def)

lemma no_plant_site_bias_raises:
  "site_loop a = ([], wins) \<Longrightarrow>
   calculate_site_bias a = Inl (KeyError ''site_Unknown_percent'')"
  by (simp add: calculate_site_bias_def favorite_site_def site_percentages_def getitem_def)

subsection \<open>Opening duels\<close>








subsection \<open>Economy buckets\<close>





subsection \<open>First dragons\<close>





subsection \<open>Gold growth rate\<close>

lemma fold_gold_updates:
  "fold (\<lambda>m. fold f (get_list (gold_updates m))) ms c =
   fold f (concat (map (\<lambda>m. get_list (gold_updates m)) ms)) c"
  by (induction ms arbitrary: c) simp_all

lemma gold_bucket_fold:
  "fold gold_bucket us (g10, g15, g20) =
     (g10 @ map gold_difference (filter (around 10) us),
      g15 @ map gold_difference (filter (around 15) us),
      g20 @ map gold_difference (filter (around 20) us))"
  by (induction us arbitrary: g10 g15 g20) (auto simp: gold_bucket_def around_def Let_def)

lemma gold_loop_buckets:
  "gold_loop a =
     (map gold_difference (filter (around 10) (all_gold_updates a)),
      map gold_difference (filter (around 15) (all_gold_updates a)),
      map gold_difference (filter (around 20) (all_gold_updates a)))"
  by (simp add: gold_loop_def fold_gold_updates gold_bucket_fold all_gold_updates_def)

lemma growth_rate_reported:
  "getitem (calculate_gold_efficiency a) ''gold_growth_rate'' =
     Inr (PNum (py_round 0
       (if avg_gold_10 a = 0 \<or> avg_gold_15 a = 0 then 0
        else (avg_gold_15 a - avg_gold_10 a) / 5 * 60)))"
  by (simp add: calculate_gold_efficiency_def getitem_def growth_rate_def
      split: prod.splits)

text \<open>
  Claim C3 (the growth rate is the per-minute difference \<open>(avg\<^sub>1\<^sub>5 - avg\<^sub>1\<^sub>0) / 5\<close>, and
  0 when either average is 0).  The guard is as claimed, but the value is not: the source
  multiplies the five-minute difference quotient by 60 under the comment
  \<^verbatim>\<open># Gold per minute\<close>.  One match with a differential of 100 at 10:00 and of 600
  at 15:00 gains 100 gold per minute and is reported with a growth rate of 6000.
\<close>

theorem growth_rate_sixtyfold:
  "avg_gold_10 gold_scenario = 100 \<and>
   avg_gold_15 gold_scenario = 600 \<and>
   (avg_gold_15 gold_scenario - avg_gold_10 gold_scenario) / 5 = 100 \<and>
   growth_rate gold_scenario = 6000 \<and>
   getitem (calculate_gold_efficiency gold_scenario) ''gold_growth_rate'' = Inr (PNum 6000)"
  by code_simp

subsection \<open>Jungle proximity\<close>

lemma fold_extend: "fold (\<lambda>m acc. acc @ f m) ms acc0 = acc0 @ concat (map f ms)"
  by (induction ms arbitrary: acc0) simp_all

lemma all_positions_samples: "all_positions a = all_samples a"
  by (simp add: all_positions_def all_samples_def fold_extend)

lemma counter_inc_not_Nil: "counter_inc k c \<noteq> []"
  by (cases c) (auto split: if_splits)

lemma fold_counter_inc_keeps: "c \<noteq> [] \<Longrightarrow> fold counter_inc xs c \<noteq> []"
  by (induction xs arbitrary: c) (simp_all add: counter_inc_not_Nil)

lemma fold_counter_inc_not_Nil: "xs \<noteq> [] \<Longrightarrow> fold counter_inc xs c \<noteq> []"
  by (cases xs) (simp_all add: fold_counter_inc_keeps counter_inc_not_Nil)












lemma jungle_proximity_empty:
  "all_samples a = [] \<Longrightarrow>
   calculate_jungle_proximity a =
     Inr [(''top_lane_percent'', PNum 0), (''mid_lane_percent'', PNum 0),
          (''bot_lane_percent'', PNum 0), (''positions'', PList [])]"
  by (simp add: calculate_jungle_proximity_def all_positions_samples)

lemma jungle_proximity_samples:
  assumes "all_samples a \<noteq> []"
  shows "\<exists>heatmap insight.
    calculate_jungle_proximity a =
      Inr [(''top_lane_percent'', PNum (py_round 1 (lane_percent a ''Top''))),
           (''mid_lane_percent'', PNum (py_round 1 (lane_percent a ''Mid''))),
           (''bot_lane_percent'', PNum (py_round 1 (lane_percent a ''Bot''))),
           (''total_samples'', PNum (of_nat (length (all_samples a)))),
           (''heatmap_data'', PDict heatmap),
           (''insight'', PStr insight)]"
proof -
  have "lane_counter a \<noteq> []"
    using assms by (simp add: lane_counter_def all_positions_samples fold_counter_inc_not_Nil)
  then obtain p c where "lane_counter a = p # c"
    by (cases "lane_counter a") auto
  then show ?thesis
    using assms
    by (simp add: calculate_jungle_proximity_def all_positions_samples max_key_def Let_def)
qed



lemma lane_scenario_values:
  "map_sum id (\<lambda>d. map (getitem d) [''top_lane_percent'', ''mid_lane_percent'',
       ''bot_lane_percent'', ''insight''])
     (calculate_jungle_proximity lane_scenario) =
   Inr [Inr (PNum (333 / 10)), Inr (PNum (333 / 10)), Inr (PNum (333 / 10)),
        Inr (PStr ''Jungler focuses 33.3% on Top lane'')]"
  by code_simp

lemma unlabelled_lane_example:
  "map_sum id (\<lambda>d. map (getitem d) [''top_lane_percent'', ''mid_lane_percent'',
       ''bot_lane_percent'', ''insight''])
     (calculate_jungle_proximity river_scenario) =
   Inr [Inr (PNum 0), Inr (PNum 0), Inr (PNum 0),
        Inr (PStr ''Jungler focuses 0.0% on River lane'')]"
  by code_simp

text \<open>
  Claim C10 (two shapes of the jungle-proximity result).  The method never raises.  Without
  a position sample it returns the three percentages as 0 and an empty list under
  \<^verbatim>\<open>positions\<close>, and has no key \<^verbatim>\<open>total_samples\<close>, \<^verbatim>\<open>heatmap_data\<close> or
  \<^verbatim>\<open>insight\<close>; with a sample it returns exactly the three percentages and those three
  keys, and no key \<^verbatim>\<open>positions\<close>.
\<close>

theorem jungle_proximity_shapes:
  "\<exists>d. calculate_jungle_proximity a = Inr d \<and>
     (if all_samples a = [] then
        d = [(''top_lane_percent'', PNum 0), (''mid_lane_percent'', PNum 0),
             (''bot_lane_percent'', PNum 0), (''positions'', PList [])] \<and>
        keys d = [''top_lane_percent'', ''mid_lane_percent'', ''bot_lane_percent'',
                  ''positions''] \<and>
        getitem d ''total_samples'' = Inl (KeyError ''total_samples'') \<and>
        getitem d ''heatmap_data'' = Inl (KeyError ''heatmap_data'') \<and>
        getitem d ''insight'' = Inl (KeyError ''insight'')
      else
        keys d = [''top_lane_percent'', ''mid_lane_percent'', ''bot_lane_percent'',
                  ''total_samples'', ''heatmap_data'', ''insight''] \<and>
        getitem d ''total_samples'' = Inr (PNum (of_nat (length (all_samples a)))) \<and>
        (\<exists>heatmap. getitem d ''heatmap_data'' = Inr (PDict heatmap)) \<and>
        (\<exists>insight. getitem d ''insight'' = Inr (PStr insight)) \<and>
        getitem d ''positions'' = Inl (KeyError ''positions''))"
proof (cases "all_samples a = []")
  case True
  then show ?thesis
    by (simp add: jungle_proximity_empty keys_def getitem_def)
next
  case False
  from jungle_proximity_samples [OF False] obtain heatmap insight where
    "calculate_jungle_proximity a =
      Inr [(''top_lane_percent'', PNum (py_round 1 (lane_percent a ''Top''))),
           (''mid_lane_percent'', PNum (py_round 1 (lane_percent a ''Mid''))),
           (''bot_lane_percent'', PNum (py_round 1 (lane_percent a ''Bot''))),
           (''total_samples'', PNum (of_nat (length (all_samples a)))),
           (''heatmap_data'', PDict heatmap),
           (''insight'', PStr insight)]"
    by blast
  with False show ?thesis
    by (simp add: keys_def getitem_def)
qed

subsection \<open>Generators that always return\<close>

lemma succeeds_return: "P x \<Longrightarrow> succeeds (gen_return x) P"
  by (simp add: succeeds_def gen_return_def)

lemma succeeds_bind:
  assumes "succeeds m Q" and "\<And>x. Q x \<Longrightarrow> succeeds (f x) P"
  shows "succeeds (gen_bind m f) P"
  unfolding succeeds_def
proof
  fix g
  from assms(1) obtain x g' where m: "m g = Inr (x, g')" and q: "Q x"
    unfolding succeeds_def by blast
  from assms(2) [OF q] obtain y g'' where "f x g' = Inr (y, g'')" and "P y"
    unfolding succeeds_def by blast
  with m show "\<exists>y g''. gen_bind m f g = Inr (y, g'') \<and> P y"
    by (simp add: gen_bind_def)
qed

lemma succeeds_weaken: "succeeds m Q \<Longrightarrow> (\<And>x. Q x \<Longrightarrow> P x) \<Longrightarrow> succeeds m P"
  unfolding succeeds_def by blast

lemma succeeds_if:
  "(c \<Longrightarrow> succeeds m P) \<Longrightarrow> (\<not> c \<Longrightarrow> succeeds n P) \<Longrightarrow> succeeds (if c then m else n) P"
  by simp

lemma succeeds_randint: "lo \<le> hi \<Longrightarrow> succeeds (randint lo hi) (\<lambda>x. lo \<le> x \<and> x \<le> hi)"
proof -
  assume le: "lo \<le> hi"
  have "0 \<le> int r mod (hi - lo + 1) \<and> int r mod (hi - lo + 1) < hi - lo + 1" for r
    using le pos_mod_sign [of "hi - lo + 1" "int r"] pos_mod_bound [of "hi - lo + 1" "int r"]
    by linarith
  then have "lo \<le> lo + int r mod (hi - lo + 1) \<and> lo + int r mod (hi - lo + 1) \<le> hi" for r
    by (smt (verit))
  with le show ?thesis
    by (simp add: succeeds_def randint_def next_raw_def)
qed

lemma succeeds_random: "succeeds py_random (\<lambda>u. True)"
  unfolding succeeds_def py_random_def next_raw_def by (simp only: split_conv) blast

lemma succeeds_choice: "xs \<noteq> [] \<Longrightarrow> succeeds (choice xs) (\<lambda>x. x \<in> set xs)"
  by (simp add: succeeds_def choice_def next_raw_def)

lemma succeeds_for_each:
  assumes "I acc" and "\<And>x acc. x \<in> set xs \<Longrightarrow> I acc \<Longrightarrow> succeeds (body x acc) I"
  shows "succeeds (for_each body xs acc) I"
  using assms
proof (induction xs arbitrary: acc)
  case Nil
  then show ?case by (simp add: succeeds_def)
next
  case (Cons x xs)
  show ?case
    unfolding succeeds_def
  proof
    fix g
    from Cons.prems have "succeeds (body x acc) I"
      by simp
    then obtain acc' g' where b: "body x acc g = Inr (acc', g')" and i: "I acc'"
      unfolding succeeds_def by blast
    have "succeeds (for_each body xs acc') I"
      using Cons.IH [OF i] Cons.prems(2) by simp
    then obtain r g'' where "for_each body xs acc' g' = Inr (r, g'')" and "I r"
      unfolding succeeds_def by blast
    with b show "\<exists>r g''. for_each body (x # xs) acc g = Inr (r, g'') \<and> I r"
      by simp
  qed
qed

lemma succeeds_for_each_count:
  assumes "\<And>x acc. x \<in> set xs \<Longrightarrow> succeeds (body x acc) (\<lambda>acc'. length acc' = Suc (length acc))"
  shows "succeeds (for_each body xs acc) (\<lambda>acc'. length acc' = length acc + length xs)"
  using assms
proof (induction xs arbitrary: acc)
  case Nil
  then show ?case by (simp add: succeeds_def)
next
  case (Cons x xs)
  show ?case
    unfolding succeeds_def
  proof
    fix g
    from Cons.prems obtain acc' g' where b: "body x acc g = Inr (acc', g')"
      and l: "length acc' = Suc (length acc)"
      unfolding succeeds_def by (metis list.set_intros(1))
    have "succeeds (for_each body xs acc') (\<lambda>r. length r = length acc' + length xs)"
      using Cons.IH Cons.prems by simp
    then obtain r g'' where "for_each body xs acc' g' = Inr (r, g'')"
      and "length r = length acc' + length xs"
      unfolding succeeds_def by blast
    with b l show "\<exists>r g''. for_each body (x # xs) acc g = Inr (r, g'') \<and>
        length r = length acc + length (x # xs)"
      by simp
  qed
qed


lemma set_py_range_1: "set (py_range start stop 1) = {start ..< stop}"
proof -
  have "(\<lambda>i. start + int i) ` {0 ..< nat (stop - start)} = {start ..< stop}"
  proof (intro equalityI subsetI)
    fix x assume "x \<in> (\<lambda>i. start + int i) ` {0 ..< nat (stop - start)}"
    then show "x \<in> {start ..< stop}" by auto
  next
    fix x assume x: "x \<in> {start ..< stop}"
    then have "x = start + int (nat (x - start))" and "nat (x - start) < nat (stop - start)"
      by auto
    then show "x \<in> (\<lambda>i. start + int i) ` {0 ..< nat (stop - start)}"
      by (metis atLeastLessThan_iff image_eqI le0)
  qed
  then show ?thesis
    by (simp add: py_range_def)
qed

lemma length_py_range_1: "length (py_range start stop 1) = nat (stop - start)"
  by (simp add: py_range_def)

subsection \<open>The loops of the generators\<close>

lemma succeeds_conj:
  assumes "succeeds m P" and "succeeds m Q"
  shows "succeeds m (\<lambda>x. P x \<and> Q x)"
  unfolding succeeds_def
proof
  fix g
  from assms(1) obtain x g' where 1: "m g = Inr (x, g')" "P x"
    unfolding succeeds_def by blast
  from assms(2) obtain y g'' where 2: "m g = Inr (y, g'')" "Q y"
    unfolding succeeds_def by blast
  from 1 2 show "\<exists>x g'. m g = Inr (x, g') \<and> P x \<and> Q x"
    by simp
qed

lemmas succeeds_bind_randint = succeeds_bind [OF succeeds_randint]
lemmas succeeds_bind_random = succeeds_bind [OF succeeds_random]
lemmas succeeds_bind_choice = succeeds_bind [OF succeeds_choice]

lemma timestamps_within_snoc:
  "timestamps_within d (ts @ [t]) = (timestamps_within d ts \<and> 0 \<le> t \<and> t \<le> d)"
  by (auto simp: timestamps_within_def)

lemma timestamps_within_sort:
  "timestamps_within d (map f (sort_key h xs)) = timestamps_within d (map f xs)"
  by (simp add: timestamps_within_def list_all_iff)

lemma kills_loop:
  assumes "180 \<le> gd"
  shows "succeeds (for_each (kill_body team_name gd) xs [])
           (\<lambda>ks. timestamps_within gd (map kill_timestamp ks))"
proof (rule succeeds_for_each)
  show "timestamps_within gd (map kill_timestamp [])"
    by (simp add: timestamps_within_def)
next
  fix k and acc :: "kill list"
  assume "timestamps_within gd (map kill_timestamp acc)"
  then show "succeeds (kill_body team_name gd k acc)
      (\<lambda>ks. timestamps_within gd (map kill_timestamp ks))"
    unfolding kill_body_def using assms
    by (intro succeeds_bind_randint succeeds_return)
       (simp_all add: timestamps_within_snoc LOL_MAP_SIZE_def)
qed

lemma dragons_loop:
  "succeeds (for_each (dragon_body team_name won gd) xs []) (\<lambda>ds. True)"
proof (rule succeeds_for_each)
  fix x acc
  show "succeeds (dragon_body team_name won gd x acc) (\<lambda>ds. True)"
    unfolding dragon_body_def Let_def
    by (intro succeeds_if succeeds_bind_random succeeds_bind_randint succeeds_bind_choice
        succeeds_return) simp_all
qed simp

lemma barons_loop:
  assumes "1500 \<le> gd"
  shows "succeeds (gen_barons team_name won gd)
           (\<lambda>bs. timestamps_within gd (map objective_timestamp bs))"
  unfolding gen_barons_def
proof (intro succeeds_if succeeds_bind_randint succeeds_for_each succeeds_return)
  fix b and acc :: "objective list"
  assume "timestamps_within gd (map objective_timestamp acc)"
  then show "succeeds (baron_body team_name won gd b acc)
      (\<lambda>bs. timestamps_within gd (map objective_timestamp bs))"
    unfolding baron_body_def Let_def using assms
    by (intro succeeds_bind_random succeeds_bind_randint succeeds_return)
       (simp_all add: timestamps_within_snoc)
qed (simp_all add: timestamps_within_def)

lemma heralds_loop:
  assumes "1500 \<le> gd"
  shows "succeeds (gen_heralds team_name won gd)
           (\<lambda>hs. timestamps_within gd (map objective_timestamp hs))"
  unfolding gen_heralds_def
proof (intro succeeds_if succeeds_bind_randint succeeds_for_each succeeds_return)
  fix h and acc :: "objective list"
  assume "timestamps_within gd (map objective_timestamp acc)"
  then show "succeeds (herald_body team_name won gd h acc)
      (\<lambda>hs. timestamps_within gd (map objective_timestamp hs))"
    unfolding herald_body_def Let_def using assms
    by (intro succeeds_bind_random succeeds_bind_randint succeeds_return)
       (simp_all add: timestamps_within_snoc)
qed (simp_all add: timestamps_within_def)

lemma py_range_5_bounds:
  assumes "x \<in> set (py_range 5 stop 5)"
  shows "5 \<le> x \<and> x < stop"
proof -
  from assms obtain i where i: "i < nat ((stop - 5 + 5 - 1) div 5)" and x: "x = 5 + int i * 5"
    by (auto simp: py_range_def)
  from i have "int i < (stop - 1) div 5"
    by simp
  then have "int i * 5 + 5 \<le> stop - 1"
    by linarith
  with x show ?thesis
    by simp
qed

lemma gold_loop_within:
  assumes "0 \<le> gd"
  shows "succeeds (for_each (gold_body base) (py_range 5 (gd div 60 + 1) 5) [])
           (\<lambda>gs. timestamps_within gd (map gold_timestamp gs))"
proof (rule succeeds_for_each)
  show "timestamps_within gd (map gold_timestamp [])"
    by (simp add: timestamps_within_def)
next
  fix minute and acc :: "gold_update list"
  assume m: "minute \<in> set (py_range 5 (gd div 60 + 1) 5)"
    and acc: "timestamps_within gd (map gold_timestamp acc)"
  from py_range_5_bounds [OF m] have "5 \<le> minute" and "minute \<le> gd div 60"
    by simp_all
  then have "0 \<le> minute * 60 \<and> minute * 60 \<le> gd"
    by linarith
  with acc show "succeeds (gold_body base minute acc)
      (\<lambda>gs. timestamps_within gd (map gold_timestamp gs))"
    unfolding gold_body_def Let_def
    by (intro succeeds_bind_randint succeeds_return) (simp_all add: timestamps_within_snoc)
qed

lemma positions_loop:
  assumes "0 \<le> gd"
  shows "succeeds (for_each (position_body gd) xs [])
           (\<lambda>ps. timestamps_within gd (map position_timestamp ps))"
proof (rule succeeds_for_each)
  show "timestamps_within gd (map position_timestamp [])"
    by (simp add: timestamps_within_def)
next
  fix i and acc :: "jungle_position list"
  assume "timestamps_within gd (map position_timestamp acc)"
  then show "succeeds (position_body gd i acc)
      (\<lambda>ps. timestamps_within gd (map position_timestamp ps))"
    unfolding position_body_def using assms
    apply (intro succeeds_bind_randint succeeds_bind_random)
     apply simp
    apply (rule succeeds_bind [where Q = "\<lambda>_. True"])
     apply (intro succeeds_if succeeds_bind_randint succeeds_return; simp)
    apply (clarsimp intro!: succeeds_return simp: timestamps_within_snoc)
    done
qed

subsection \<open>How many matches are generated\<close>

lemma succeeds_days_ago:
  assumes "0 < ordinal now - d" and "ordinal now - d \<le> MAXORDINAL" and "\<bar>d\<bar> \<le> 999999999"
  shows "succeeds (days_ago now d) (\<lambda>_. True)"
  using assms
  by (simp add: succeeds_def days_ago_def timedelta_days_def datetime_sub_def Let_def)


lemma succeeds_bind_if:
  assumes "c \<Longrightarrow> succeeds (gen_bind m f) P" and "\<not> c \<Longrightarrow> succeeds (gen_bind n f) P"
  shows "succeeds (gen_bind (if c then m else n) f) P"
  using assms by simp

lemmas succeeds_bind_kills = succeeds_bind [OF kills_loop]
lemmas succeeds_bind_dragons = succeeds_bind [OF dragons_loop]
lemmas succeeds_bind_barons = succeeds_bind [OF barons_loop]
lemmas succeeds_bind_heralds = succeeds_bind [OF heralds_loop]
lemmas succeeds_bind_gold = succeeds_bind [OF gold_loop_within]
lemmas succeeds_bind_positions = succeeds_bind [OF positions_loop]

lemma lol_match_body_succeeds:
  assumes "0 < ordinal now - match_id * 3" and "ordinal now - match_id * 3 \<le> MAXORDINAL"
    and "\<bar>match_id * 3\<bar> \<le> 999999999"
  shows "succeeds (lol_match_body now team_name match_id ms)
           (\<lambda>ms'. \<exists>m. ms' = ms @ [m] \<and> lol_team m = team_name \<and> other_events_within m)"
  unfolding lol_match_body_def Let_def
  apply (rule succeeds_bind [OF succeeds_days_ago [OF assms]])
  apply (intro succeeds_bind_random succeeds_bind_randint succeeds_bind_if
      succeeds_bind_kills succeeds_bind_dragons succeeds_bind_barons succeeds_bind_heralds
      succeeds_bind_gold succeeds_bind_positions succeeds_return)
  apply (simp_all add: other_events_within_def timestamps_within_sort get_list_def)
  done


lemma succeeds_result:
  assumes "succeeds m P"
  shows "\<exists>x g'. m g = Inr (x, g') \<and> P x"
  using assms unfolding succeeds_def by blast

lemma lol_generator_succeeds:
  assumes "n * 3 < ordinal now" and "ordinal now \<le> MAXORDINAL"
  shows "succeeds (generate_lol_match_data now team_name n)
           (\<lambda>ms. length ms = nat n \<and> list_all other_events_within ms)"
proof -
  have body: "succeeds (lol_match_body now team_name match_id ms)
      (\<lambda>ms'. \<exists>m. ms' = ms @ [m] \<and> lol_team m = team_name \<and> other_events_within m)"
    if "match_id \<in> set (py_range 1 (n + 1) 1)" for match_id ms
  proof -
    from that have "1 \<le> match_id" and "match_id \<le> n"
      by (simp_all add: set_py_range_1)
    with assms show ?thesis
      by (intro lol_match_body_succeeds) (simp_all add: MAXORDINAL_def)
  qed
  have count: "succeeds (for_each (lol_match_body now team_name) (py_range 1 (n + 1) 1) [])
      (\<lambda>ms. length ms = length ([] :: lol_match list) + length (py_range 1 (n + 1) 1))"
    by (rule succeeds_for_each_count) (rule succeeds_weaken [OF body], auto)
  have inv: "succeeds (for_each (lol_match_body now team_name) (py_range 1 (n + 1) 1) [])
      (list_all other_events_within)"
    by (rule succeeds_for_each) (simp, rule succeeds_weaken [OF body], auto)
  from succeeds_conj [OF count inv] show ?thesis
    by (simp add: generate_lol_match_data_def length_py_range_1)
qed
















subsection \<open>Timestamps of generated events\<close>

lemma for_each_same_source:
  assumes "\<And>x acc. \<exists>acc'. body x acc g = Inr (acc', g)"
  shows "\<exists>acc'. for_each body xs acc g = Inr (acc', g)"
proof (induction xs arbitrary: acc)
  case Nil
  show ?case by simp
next
  case (Cons x xs)
  from assms obtain acc' where "body x acc g = Inr (acc', g)"
    by blast
  with Cons.IH [of acc'] show ?case
    by simp
qed

lemma constant_source: "next_raw (\<lambda>_. c) = (c, \<lambda>_. c)"
  by (simp add: next_raw_def)

text \<open>
  Claim C2 (every nested event of a generated match has its timestamp in
  \<open>[0, duration]\<close>).  Kills, barons, heralds, gold snapshots and jungle positions do
  (lemma \<open>other_events_always_within\<close>), but a dragon is stamped up to 120 seconds
  after its spawn time and only the spawn time is compared with the duration, where the
  herald and baron loops clamp the drawn timestamp itself.  With every raw draw equal
  to 902 the game lasts 1501 seconds and the dragon that spawns at 1500 is taken at 1555.
\<close>

theorem dragon_after_game_end:
  "\<exists>m g. generate_lol_match_data example_now ''Cloud9'' 1 (\<lambda>_. 902) = Inr ([m], g) \<and>
     duration m = 1501 \<and>
     map objective_timestamp (get_list (dragons m)) = [355, 655, 955, 1255, 1555] \<and>
     \<not> dragons_within m"
proof -
  let ?g = "\<lambda>_::nat. 902::nat"
  have date: "days_ago example_now 3 ?g =
      Inr (\<lparr>ordinal = 739920, microsecond_of_day = 0\<rparr>, ?g)"
    by (simp add: days_ago_def timedelta_days_def datetime_sub_def example_now_def
        MAXORDINAL_def)
  have won: "py_random ?g = Inr (902 / 2 ^ 53, ?g)"
    by (simp add: py_random_def constant_source)
  have int: "randint lo hi ?g =
      (if hi < lo then Inl (ValueError ''empty range for randrange()'')
       else Inr (lo + 902 mod (hi - lo + 1), ?g))" for lo hi
    by (simp add: randint_def constant_source)
  have kind: "choice [''Cloud'', ''Infernal'', ''Ocean'', ''Mountain'', ''Elder''] ?g =
      Inr (''Ocean'', ?g)"
    by (simp add: choice_def constant_source)
  obtain ks where ks: "for_each (kill_body ''Cloud9'' 1501) (py_range 0 35 1) [] ?g =
      Inr (ks, ?g)"
    using for_each_same_source [of "kill_body ''Cloud9'' 1501" ?g "py_range 0 35 1" "[]"]
    by (auto simp: kill_body_def gen_bind_def gen_return_def int LOL_MAP_SIZE_def)
  obtain ps where ps: "for_each (position_body 1501) (py_range 0 194 1) [] ?g = Inr (ps, ?g)"
    using for_each_same_source [of "position_body 1501" ?g "py_range 0 194 1" "[]"]
    by (auto simp: position_body_def gen_bind_def gen_return_def int won)
  have ds: "for_each (dragon_body ''Cloud9'' True 1501) dragon_spawn_times [] ?g =
      Inr (map (\<lambda>t. \<lparr>objective_timestamp = t, objective_team = ''Cloud9'',
                      dragon_type = Some ''Ocean'', objective_x = 9800,
                      objective_y = 4200\<rparr>) [355, 655, 955, 1255, 1555], ?g)"
    by (simp add: dragon_spawn_times_def dragon_body_def gen_bind_def gen_return_def won int
        kind Let_def)
  obtain bs where bs: "gen_barons ''Cloud9'' True 1501 ?g = Inr (bs, ?g)"
    by (simp add: gen_barons_def baron_body_def gen_bind_def gen_return_def won int Let_def
        py_range_def upt_rec)
  obtain hs where hs: "gen_heralds ''Cloud9'' True 1501 ?g = Inr (hs, ?g)"
    by (simp add: gen_heralds_def herald_body_def gen_bind_def gen_return_def won int Let_def
        py_range_def upt_rec)
  obtain gs where gs: "for_each (gold_body 500) (py_range 5 26 5) [] ?g =
      Inr (gs, ?g)"
    using for_each_same_source [of "gold_body 500" ?g "py_range 5 26 5" "[]"]
    by (auto simp: gold_body_def gen_bind_def gen_return_def int Let_def)
  have "lol_match_body example_now ''Cloud9'' 1 [] ?g =
      Inr ([\<lparr>lol_match_id = ''LOL_'' @ str_int 1,
             lol_date = \<lparr>ordinal = 739920, microsecond_of_day = 0\<rparr>,
             lol_team = ''Cloud9'', lol_opponent = ''Team_'' @ str_int 1, lol_won = True,
             duration = 1501,
             kills = sort_key kill_timestamp ks,
             dragons = Some (sort_key objective_timestamp
               (map (\<lambda>t. \<lparr>objective_timestamp = t, objective_team = ''Cloud9'',
                      dragon_type = Some ''Ocean'', objective_x = 9800,
                      objective_y = 4200\<rparr>) [355, 655, 955, 1255, 1555])),
             barons = Some (sort_key objective_timestamp bs),
             heralds = Some (sort_key objective_timestamp hs),
             gold_updates = Some (sort_key gold_timestamp gs),
             jungle_positions = Some (sort_key position_timestamp ps)\<rparr>], ?g)"
    by (simp add: lol_match_body_def gen_bind_def date won int ks ds bs hs gs ps
        gen_return_def)
  then show ?thesis
    by (simp add: generate_lol_match_data_def py_range_def dragons_within_def
        timestamps_within_def get_list_def)
qed

lemma other_events_always_within:
  assumes "n * 3 < ordinal now" and "ordinal now \<le> MAXORDINAL"
    and "generate_lol_match_data now team_name n g = Inr (ms, g')"
  shows "list_all other_events_within ms"
  using succeeds_result [OF lol_generator_succeeds [OF assms(1,2)], of team_name g] assms(3)
  by auto

subsection \<open>The analyzers as objects\<close>






end
